theory Spec2Isabelle
  imports Main
begin

section \<open>Values\<close>

text \<open>
  The playground's data arrives through \<open>JSON.parse\<close> and is stored without any check
  (the TypeScript casts \<open>as string\<close>, \<open>as UIElement\<close> are erased), so the tree
  holds arbitrary JavaScript values. \<open>jsval\<close> is the universe of values the program can
  meet: \<open>undefined\<close> (a missing property), the JSON values, and the built-in objects
  that a property read can reach through a prototype chain.

  A number is carried as its canonical rendering (\<open>Number.prototype.toString\<close>,
  for instance \<open>''4''\<close>, \<open>''0.5''\<close>, \<open>''1e+21''\<close>): the code modelled here only
  tests a number for truthiness and uses it as a property key.
  An object is the list of its own properties in insertion order; a read takes the
  first entry of a key.
\<close>

datatype jsval =
    JUndefined
  | JNull
  | JBool bool
  | JNum string
  | JStr string
  | JArr "jsval list"
  | JObj "(string \<times> jsval) list"
  | JBuiltin string

text \<open>
  The exceptions the modelled code can raise: a TypeError (a property read on
  \<open>null\<close> or \<open>undefined\<close>, a call of something that is not a function, an object
  that cannot be converted to a string) and the RangeError of a call stack that is
  exhausted.
\<close>

datatype js_error = TypeError | RangeError

definition nullish :: "jsval \<Rightarrow> bool" where
  "nullish v = (v = JUndefined \<or> v = JNull)"

text \<open>JavaScript truthiness (\<open>ToBoolean\<close>), as used by \<open>if (patch)\<close>, \<open>if (key)\<close>, \<open>child ? ... : null\<close>.\<close>

fun truthy :: "jsval \<Rightarrow> bool" where
  "truthy JUndefined = False"
| "truthy JNull = False"
| "truthy (JBool b) = b"
| "truthy (JNum n) = (n \<noteq> ''0'' \<and> n \<noteq> ''NaN'')"
| "truthy (JStr s) = (s \<noteq> [])"
| "truthy (JArr xs) = True"
| "truthy (JObj kvs) = True"
| "truthy (JBuiltin b) = True"

text \<open>
  \<open>getField v k\<close> is the read \<open>v.k\<close> on a value that is not \<open>null\<close> or
  \<open>undefined\<close>, for the property names the program writes out (\<open>path\<close>, \<open>op\<close>,
  \<open>value\<close> of a patch; \<open>type\<close>, \<open>props\<close>, \<open>children\<close>, \<open>key\<close> of an element;
  \<open>className\<close>, \<open>maxWidth\<close>, \<open>centered\<close>, \<open>title\<close>, \<open>description\<close>, \<open>direction\<close>,
  \<open>gap\<close>, \<open>columns\<close> of its props): none of them is a member of a built-in
  prototype, so the read finds an own property of an object or nothing.
\<close>

fun getField :: "jsval \<Rightarrow> string \<Rightarrow> jsval" where
  "getField (JObj kvs) k = (case map_of kvs k of Some v \<Rightarrow> v | None \<Rightarrow> JUndefined)"
| "getField v k = JUndefined"

section \<open>Objects used as dictionaries\<close>

text \<open>
  \<open>tree.elements\<close> is an ordinary object created by an object literal, not a
  \<open>Map\<close>: besides its own properties it has a prototype, \<open>Object.prototype\<close> unless
  an assignment to the key \<open>__proto__\<close> replaced it.
\<close>

datatype prototype =
    ObjectPrototype
  | NullPrototype
  | JsonObjectPrototype "(string \<times> jsval) list"
  | JsonArrayPrototype "jsval list"

record jsobject =
  own :: "string \<rightharpoonup> jsval"
  proto :: prototype

text \<open>The property names of \<open>Object.prototype\<close> (ECMAScript, with Annex B).\<close>

definition objectPrototypeNames :: "string list" where
  "objectPrototypeNames =
     [''constructor'', ''hasOwnProperty'', ''isPrototypeOf'', ''propertyIsEnumerable'',
      ''toLocaleString'', ''toString'', ''valueOf'', ''__defineGetter__'',
      ''__defineSetter__'', ''__lookupGetter__'', ''__lookupSetter__'', ''__proto__'']"

text \<open>The property names of \<open>Array.prototype\<close> (ECMAScript 2023).\<close>

definition arrayPrototypeNames :: "string list" where
  "arrayPrototypeNames =
     [''at'', ''concat'', ''constructor'', ''copyWithin'', ''entries'', ''every'', ''fill'',
      ''filter'', ''find'', ''findIndex'', ''findLast'', ''findLastIndex'', ''flat'',
      ''flatMap'', ''forEach'', ''includes'', ''indexOf'', ''join'', ''keys'',
      ''lastIndexOf'', ''map'', ''pop'', ''push'', ''reduce'', ''reduceRight'', ''reverse'',
      ''shift'', ''slice'', ''some'', ''sort'', ''splice'', ''toLocaleString'',
      ''toReversed'', ''toSorted'', ''toSpliced'', ''toString'', ''unshift'', ''values'',
      ''with'']"

text \<open>The value of a prototype, as the getter of \<open>__proto__\<close> returns it.\<close>

fun prototypeValue :: "prototype \<Rightarrow> jsval" where
  "prototypeValue ObjectPrototype = JBuiltin ''Object.prototype''"
| "prototypeValue NullPrototype = JNull"
| "prototypeValue (JsonObjectPrototype kvs) = JObj kvs"
| "prototypeValue (JsonArrayPrototype xs) = JArr xs"

text \<open>Decimal rendering of an array index or length.\<close>

function showNat :: "nat \<Rightarrow> string" where
  "showNat n =
     (if n < 10 then [char_of (48 + n)]
      else showNat (n div 10) @ [char_of (48 + n mod 10)])"
  by pat_completeness auto
termination
  by (relation "measure id") auto

declare showNat.simps [simp del]

text \<open>
  A read that found no own property on the receiver continues in
  \<open>Object.prototype\<close>: its members are functions, and \<open>__proto__\<close> is an accessor
  whose getter returns the receiver's prototype.
\<close>

definition getFromObjectPrototype :: "jsval \<Rightarrow> string \<Rightarrow> jsval" where
  "getFromObjectPrototype receiverProto k =
     (if k = ''__proto__'' then receiverProto
      else if k \<in> set objectPrototypeNames then JBuiltin (''Object.prototype.'' @ k)
      else JUndefined)"

text \<open>The read \<open>obj[k]\<close> for a string key: own properties first, then the prototype chain.\<close>

definition getElement :: "jsobject \<Rightarrow> string \<Rightarrow> jsval" where
  "getElement obj k =
     (case own obj k of
        Some v \<Rightarrow> v
      | None \<Rightarrow>
         (case proto obj of
            ObjectPrototype \<Rightarrow> getFromObjectPrototype (prototypeValue (proto obj)) k
          | NullPrototype \<Rightarrow> JUndefined
          | JsonObjectPrototype kvs \<Rightarrow>
              (case map_of kvs k of
                 Some v \<Rightarrow> v
               | None \<Rightarrow> getFromObjectPrototype (prototypeValue (proto obj)) k)
          | JsonArrayPrototype xs \<Rightarrow>
              (case find (\<lambda>i. showNat i = k) [0..<length xs] of
                 Some i \<Rightarrow> xs ! i
               | None \<Rightarrow>
                  if k = ''length'' then JNum (showNat (length xs))
                  else if k \<in> set arrayPrototypeNames then JBuiltin (''Array.prototype.'' @ k)
                  else getFromObjectPrototype (prototypeValue (proto obj)) k)))"

text \<open>
  The object spread \<open>{ ...obj }\<close>: a new object with the own enumerable properties of
  \<open>obj\<close> (every property here is enumerable) and the prototype \<open>Object.prototype\<close>.
\<close>

definition spreadObject :: "jsobject \<Rightarrow> jsobject" where
  "spreadObject obj = \<lparr>own = own obj, proto = ObjectPrototype\<rparr>"

text \<open>
  Whether an assignment \<open>obj[k] = v\<close> reaches the setter of \<open>Object.prototype.__proto__\<close>:
  the key is \<open>__proto__\<close>, the receiver has no own property of that name, and neither has
  an object of its prototype chain before \<open>Object.prototype\<close>.
\<close>

definition reachesProtoSetter :: "jsobject \<Rightarrow> string \<Rightarrow> bool" where
  "reachesProtoSetter obj k =
     (k = ''__proto__'' \<and> own obj k = None \<and>
      (case proto obj of
         ObjectPrototype \<Rightarrow> True
       | NullPrototype \<Rightarrow> False
       | JsonObjectPrototype kvs \<Rightarrow> map_of kvs k = None
       | JsonArrayPrototype xs \<Rightarrow> True))"

text \<open>
  The setter of \<open>__proto__\<close>: an object or \<open>null\<close> becomes the receiver's prototype,
  any other value is ignored. No own property is created.
\<close>

fun setPrototype :: "jsobject \<Rightarrow> jsval \<Rightarrow> jsobject" where
  "setPrototype obj JNull = obj\<lparr>proto := NullPrototype\<rparr>"
| "setPrototype obj (JObj kvs) = obj\<lparr>proto := JsonObjectPrototype kvs\<rparr>"
| "setPrototype obj (JArr xs) = obj\<lparr>proto := JsonArrayPrototype xs\<rparr>"
| "setPrototype obj v = obj"

text \<open>
  The assignment \<open>obj[k] = v\<close>. Every other inherited property is a writable data
  property, so the assignment creates or overwrites an own property of the receiver.
\<close>

definition setElement :: "jsobject \<Rightarrow> string \<Rightarrow> jsval \<Rightarrow> jsobject" where
  "setElement obj k v =
     (if reachesProtoSetter obj k then setPrototype obj v
      else obj\<lparr>own := (own obj)(k \<mapsto> v)\<rparr>)"

section \<open>Strings\<close>

text \<open>\<open>s.startsWith(p)\<close>, \<open>s.slice(n)\<close> is \<open>drop n s\<close>, and \<open>s.split(c)\<close> for a one-character separator.\<close>

definition startsWith :: "string \<Rightarrow> string \<Rightarrow> bool" where
  "startsWith s p = (take (length p) s = p)"

fun splitOn :: "char \<Rightarrow> string \<Rightarrow> string list" where
  "splitOn c [] = [[]]"
| "splitOn c (x # xs) =
     (if x = c then [] # splitOn c xs
      else (case splitOn c xs of
              [] \<Rightarrow> [[x]]
            | l # ls \<Rightarrow> (x # l) # ls))"

section \<open>The tree and the patch applier\<close>

record UITree =
  root :: jsval
  elements :: jsobject

text \<open>
  \<open>applyPatch\<close> (lines 94 to 110). The patch is whatever \<open>JSON.parse\<close>
  returned. The copy \<open>newTree\<close> is built first; \<open>patch.path.startsWith\<close> throws a
  TypeError when \<open>patch.path\<close> is not a string.
\<close>

definition applyPatch :: "UITree \<Rightarrow> jsval \<Rightarrow> js_error + UITree" where
  "applyPatch tree patch =
     (let newTree = tree\<lparr>elements := spreadObject (elements tree)\<rparr> in
      if nullish patch then Inl TypeError
      else if getField patch ''path'' = JStr ''/root''
      then Inr (newTree\<lparr>root := getField patch ''value''\<rparr>)
      else
        (case getField patch ''path'' of
           JStr path \<Rightarrow>
             if startsWith path ''/elements/''
             then
               (let key = hd (splitOn CHR ''/'' (drop (length ''/elements/'') path)) in
                if key \<noteq> [] \<and>
                   (getField patch ''op'' = JStr ''set'' \<or> getField patch ''op'' = JStr ''add'')
                then Inr (newTree\<lparr>elements :=
                            setElement (elements newTree) key (getField patch ''value'')\<rparr>)
                else Inr newTree)
             else Inr newTree
         | _ \<Rightarrow> Inl TypeError))"

text \<open>A patch of the declared shape \<open>{ op: string; path: string; value: unknown }\<close>.\<close>

definition mkPatch :: "string \<Rightarrow> string \<Rightarrow> jsval \<Rightarrow> jsval" where
  "mkPatch opn path v = JObj [(''op'', JStr opn), (''path'', JStr path), (''value'', v)]"

text \<open>The tree \<open>{ root: "", elements: {} }\<close> every submission starts from.\<close>

definition emptyTree :: UITree where
  "emptyTree = \<lparr>root = JStr [], elements = \<lparr>own = Map.empty, proto = ObjectPrototype\<rparr>\<rparr>"

text \<open>Applying patches in arrival order; the first exception ends the run.\<close>

fun applyPatches :: "UITree \<Rightarrow> jsval list \<Rightarrow> js_error + UITree" where
  "applyPatches tree [] = Inr tree"
| "applyPatches tree (patch # rest) =
     (case applyPatch tree patch of
        Inl e \<Rightarrow> Inl e
      | Inr tree' \<Rightarrow> applyPatches tree' rest)"

section \<open>The patch applier on a heap\<close>

text \<open>
  JavaScript objects are references. To say that \<open>applyPatch\<close> leaves its argument
  alone, the tree and its \<open>elements\<close> object live at addresses of a heap (a list of
  objects, the address being the index); an object literal allocates at the end.
  Patch values are never written to, so they stay plain values.
\<close>

datatype heap_object =
    TreeObject jsval nat
  | DictObject jsobject

type_synonym heap = "heap_object list"

definition heapGet :: "heap \<Rightarrow> nat \<Rightarrow> heap_object option" where
  "heapGet h a = (if a < length h then Some (h ! a) else None)"

text \<open>
  \<open>applyPatch\<close> again, with its allocations and writes: the outer literal copies the
  properties of \<open>tree\<close>, the inner literal copies those of \<open>tree.elements\<close> and is
  stored under \<open>elements\<close> of the new tree; every later write goes through
  \<open>newTree\<close>. An address that holds no tree does not occur in the program (a
  reference always points to its object); the model answers TypeError there.
\<close>

definition applyPatchHeap :: "heap \<Rightarrow> nat \<Rightarrow> jsval \<Rightarrow> heap \<times> (js_error + nat)" where
  "applyPatchHeap h tree patch =
     (case heapGet h tree of
        Some (TreeObject r e) \<Rightarrow>
          (case heapGet h e of
             Some (DictObject d) \<Rightarrow>
               (let newTree = length h;
                    h1 = h @ [TreeObject r e];
                    newElements = length h1;
                    h2 = h1 @ [DictObject (spreadObject d)];
                    h3 = h2[newTree := TreeObject r newElements]
                in
                if nullish patch then (h3, Inl TypeError)
                else if getField patch ''path'' = JStr ''/root''
                then (h3[newTree := TreeObject (getField patch ''value'') newElements], Inr newTree)
                else
                  (case getField patch ''path'' of
                     JStr path \<Rightarrow>
                       if startsWith path ''/elements/''
                       then
                         (let key = hd (splitOn CHR ''/'' (drop (length ''/elements/'') path)) in
                          if key \<noteq> [] \<and>
                             (getField patch ''op'' = JStr ''set'' \<or>
                              getField patch ''op'' = JStr ''add'')
                          then (h3[newElements := DictObject
                                      (setElement (spreadObject d) key (getField patch ''value''))],
                                Inr newTree)
                          else (h3, Inr newTree))
                       else (h3, Inr newTree)
                   | _ \<Rightarrow> (h3, Inl TypeError)))
           | _ \<Rightarrow> (h, Inl TypeError))
      | _ \<Rightarrow> (h, Inl TypeError))"

text \<open>The tree value an address denotes.\<close>

definition treeAt :: "heap \<Rightarrow> nat \<Rightarrow> UITree option" where
  "treeAt h a =
     (case heapGet h a of
        Some (TreeObject r e) \<Rightarrow>
          (case heapGet h e of
             Some (DictObject d) \<Rightarrow> Some \<lparr>root = r, elements = d\<rparr>
           | _ \<Rightarrow> None)
      | _ \<Rightarrow> None)"

section \<open>The patch stream consumer\<close>

text \<open>
  \<open>String.prototype.trim\<close> removes white space and line terminators at both ends. A
  \<open>char\<close> stands for a code unit below 256; the white space in that range is TAB, LF,
  VT, FF, CR, SPACE and NBSP.
\<close>

definition isWhiteSpace :: "char \<Rightarrow> bool" where
  "isWhiteSpace c = (of_char c \<in> {9::nat, 10, 11, 12, 13, 32, 160})"

definition trim :: "string \<Rightarrow> string" where
  "trim s = rev (dropWhile isWhiteSpace (rev (dropWhile isWhiteSpace s)))"

text \<open>
  \<open>parsePatch\<close> (lines 84 to 92). \<open>JSON.parse\<close> is the platform's; it is a parameter
  here, \<open>None\<close> standing for the SyntaxError it throws, which the \<open>catch\<close> turns into
  \<open>null\<close>. A line that parses is returned as it is, whatever JSON value it holds.
\<close>

definition parsePatch :: "(string \<Rightarrow> jsval option) \<Rightarrow> string \<Rightarrow> jsval" where
  "parsePatch jsonParse line =
     (let trimmed = trim line in
      if trimmed = [] \<or> startsWith trimmed ''//'' then JNull
      else (case jsonParse trimmed of None \<Rightarrow> JNull | Some v \<Rightarrow> v))"

text \<open>
  The state the loop of \<open>handleSubmit\<close> (lines 209 to 238) works on: its local
  \<open>currentTree\<close>, and the component's \<open>tree\<close> and \<open>streamLines\<close> as the last
  \<open>setTree\<close> and \<open>setStreamLines\<close> leave them.
\<close>

record stream_state =
  currentTree :: UITree
  treeState :: UITree
  streamLines :: "string list"

text \<open>
  The body of \<open>for (const line of lines)\<close>. An exception of \<open>applyPatch\<close> leaves the
  state as it was and reaches the \<open>catch\<close> of \<open>handleSubmit\<close>.
\<close>

definition processLine ::
  "(string \<Rightarrow> jsval option) \<Rightarrow> stream_state \<Rightarrow> string \<Rightarrow> js_error + stream_state" where
  "processLine jsonParse st line =
     (let patch = parsePatch jsonParse line in
      if truthy patch
      then (case applyPatch (currentTree st) patch of
              Inl e \<Rightarrow> Inl e
            | Inr t \<Rightarrow> Inr (st\<lparr>currentTree := t, treeState := t,
                               streamLines := streamLines st @ [trim line]\<rparr>))
      else Inr st)"

fun processLines ::
  "(string \<Rightarrow> jsval option) \<Rightarrow> stream_state \<Rightarrow> string list \<Rightarrow>
     stream_state \<times> js_error option" where
  "processLines jsonParse st [] = (st, None)"
| "processLines jsonParse st (line # rest) =
     (case processLine jsonParse st line of
        Inl e \<Rightarrow> (st, Some e)
      | Inr st' \<Rightarrow> processLines jsonParse st' rest)"

text \<open>
  \<open>decoder.decode(value, { stream: true })\<close>: the platform's streaming decoder
  consumes a chunk byte by byte, keeping its state (an unfinished multi-byte
  sequence) from one chunk to the next. The step for one byte is a parameter.
\<close>

fun decodeChunk :: "('d \<Rightarrow> 'b \<Rightarrow> 'd \<times> string) \<Rightarrow> 'd \<Rightarrow> 'b list \<Rightarrow> 'd \<times> string" where
  "decodeChunk decodeByte d [] = (d, [])"
| "decodeChunk decodeByte d (b # bs) =
     (case decodeByte d b of
        (d1, t1) \<Rightarrow>
          (case decodeChunk decodeByte d1 bs of (d2, t2) \<Rightarrow> (d2, t1 @ t2)))"

text \<open>
  The \<open>while (true)\<close> loop over the chunks the reader delivers, until \<open>done\<close>. The
  result is the buffer, the state, and the exception that ended the loop if one did.
\<close>

fun readLoop ::
  "(string \<Rightarrow> jsval option) \<Rightarrow> ('d \<Rightarrow> 'b \<Rightarrow> 'd \<times> string) \<Rightarrow> 'd \<Rightarrow> string \<Rightarrow>
     stream_state \<Rightarrow> 'b list list \<Rightarrow> string \<times> stream_state \<times> js_error option" where
  "readLoop jsonParse decodeByte d buffer st [] = (buffer, st, None)"
| "readLoop jsonParse decodeByte d buffer st (chunk # chunks) =
     (case decodeChunk decodeByte d chunk of
        (d', decoded) \<Rightarrow>
          (let lines = splitOn CHR 0x0A (buffer @ decoded);
               buffer' = (if lines = [] then [] else last lines)
           in case processLines jsonParse st (butlast lines) of
                (st', Some e) \<Rightarrow> (buffer', st', Some e)
              | (st', None) \<Rightarrow> readLoop jsonParse decodeByte d' buffer' st' chunks))"

text \<open>The flush of the trailing buffer after the loop (lines 231 to 238).\<close>

definition flushBuffer ::
  "(string \<Rightarrow> jsval option) \<Rightarrow> string \<Rightarrow> stream_state \<Rightarrow> stream_state \<times> js_error option" where
  "flushBuffer jsonParse buffer st =
     (if trim buffer \<noteq> []
      then (let patch = parsePatch jsonParse buffer in
            if truthy patch
            then (case applyPatch (currentTree st) patch of
                    Inl e \<Rightarrow> (st, Some e)
                  | Inr t \<Rightarrow> (st\<lparr>currentTree := t, treeState := t,
                                   streamLines := streamLines st @ [trim buffer]\<rparr>, None))
            else (st, None))
      else (st, None))"

definition initialState :: stream_state where
  "initialState = \<lparr>currentTree = emptyTree, treeState = emptyTree, streamLines = []\<rparr>"

text \<open>
  The consumer of a response body that arrives whole as the chunks \<open>chunks\<close>: what
  the component shows at the end (\<open>treeState\<close>, \<open>streamLines\<close>) and the exception the
  \<open>catch\<close> logged, if any.
\<close>

definition consumeStream ::
  "(string \<Rightarrow> jsval option) \<Rightarrow> ('d \<Rightarrow> 'b \<Rightarrow> 'd \<times> string) \<Rightarrow> 'd \<Rightarrow> 'b list list \<Rightarrow>
     stream_state \<times> js_error option" where
  "consumeStream jsonParse decodeByte d0 chunks =
     (case readLoop jsonParse decodeByte d0 [] initialState chunks of
        (buffer, st, Some e) \<Rightarrow> (st, Some e)
      | (buffer, st, None) \<Rightarrow> flushBuffer jsonParse buffer st)"

text \<open>The same, from the decoded text: every complete line, then the trailing one.\<close>

definition linesOutcome ::
  "(string \<Rightarrow> jsval option) \<Rightarrow> string \<Rightarrow> stream_state \<times> js_error option" where
  "linesOutcome jsonParse content =
     (let lines = splitOn CHR 0x0A content in
      case processLines jsonParse initialState (butlast lines) of
        (st, Some e) \<Rightarrow> (st, Some e)
      | (st, None) \<Rightarrow> flushBuffer jsonParse (last lines) st)"

text \<open>A decoder for text of one byte per character, for examples.\<close>

definition asciiDecodeByte :: "unit \<Rightarrow> char \<Rightarrow> unit \<times> string" where
  "asciiDecodeByte d b = (d, [b])"

section \<open>The component renderer\<close>

text \<open>
  \<open>ToString\<close> on the values a key or a class name can be, and \<open>Array.prototype.join\<close>
  (which renders \<open>null\<close> and \<open>undefined\<close> as the empty string). An object made by
  \<open>JSON.parse\<close> converts to \<open>[object Object]\<close> through \<open>Object.prototype.toString\<close>,
  unless it has an own property \<open>toString\<close>: that one is not a function, \<open>valueOf\<close>
  does not return a primitive either, and the conversion throws a TypeError.
  A built-in object is never a key or a class name in this program; the equation
  for it only makes the function total.
\<close>

fun toStringJS :: "jsval \<Rightarrow> js_error + string"
  and joinJS :: "string \<Rightarrow> jsval list \<Rightarrow> js_error + string" where
  "toStringJS JUndefined = Inr ''undefined''"
| "toStringJS JNull = Inr ''null''"
| "toStringJS (JBool b) = Inr (if b then ''true'' else ''false'')"
| "toStringJS (JNum n) = Inr n"
| "toStringJS (JStr s) = Inr s"
| "toStringJS (JArr xs) = joinJS '','' xs"
| "toStringJS (JObj kvs) =
     (if map_of kvs ''toString'' = None then Inr ''[object Object]'' else Inl TypeError)"
| "toStringJS (JBuiltin b) = Inr (''[builtin '' @ b @ '']'')"
| "joinJS sep [] = Inr []"
| "joinJS sep (x # xs) =
     (case (if nullish x then Inr [] else toStringJS x) of
        Inl e \<Rightarrow> Inl e
      | Inr s \<Rightarrow>
         (if xs = [] then Inr s
          else (case joinJS sep xs of
                  Inl e \<Rightarrow> Inl e
                | Inr r \<Rightarrow> Inr (s @ sep @ r))))"

text \<open>\<open>s.includes(sub)\<close>.\<close>

fun includesJS :: "string \<Rightarrow> string \<Rightarrow> bool" where
  "includesJS [] sub = (sub = [])"
| "includesJS (x # xs) sub = (startsWith (x # xs) sub \<or> includesJS xs sub)"

text \<open>\<open>xs.map(f)\<close> where \<open>f\<close> may throw: the first exception ends the map.\<close>

fun mapE :: "('a \<Rightarrow> 'e + 'b) \<Rightarrow> 'a list \<Rightarrow> 'e + 'b list" where
  "mapE f [] = Inr []"
| "mapE f (x # xs) =
     (case f x of
        Inl e \<Rightarrow> Inl e
      | Inr y \<Rightarrow> (case mapE f xs of Inl e \<Rightarrow> Inl e | Inr ys \<Rightarrow> Inr (y # ys)))"

text \<open>
  What \<open>renderElement\<close> returns: \<open>null\<close>, literal text, a value placed in braces, the
  array \<open>renderChildren()\<close> returns, or an element with its tag, \<open>key\<close>, \<open>className\<close>
  and children.
\<close>

datatype node =
    Null
  | Text string
  | Value jsval
  | Fragment "node list"
  | Element string jsval string "node list"

definition baseClass :: string where
  "baseClass = ''animate-in fade-in slide-in-from-bottom-1 duration-200''"

text \<open>The four kinds of the \<open>switch\<close> that call \<open>renderChildren()\<close>, and the seventeen that do not.\<close>

definition containerKinds :: "string list" where
  "containerKinds = [''Card'', ''Stack'', ''Grid'', ''Form'']"

definition leafKinds :: "string list" where
  "leafKinds =
     [''Divider'', ''Input'', ''Textarea'', ''Select'', ''Checkbox'', ''Radio'', ''Switch'',
      ''Button'', ''Link'', ''Heading'', ''Text'', ''Image'', ''Avatar'', ''Badge'', ''Alert'',
      ''Progress'', ''Rating'']"



text \<open>
  \<open>const customClass = Array.isArray(props.className) ? props.className.join(" ") : ""\<close>;
  the read \<open>props.className\<close> throws when the element has no \<open>props\<close>.
\<close>

definition customClassOf :: "jsval \<Rightarrow> js_error + string" where
  "customClassOf props =
     (if nullish props then Inl TypeError
      else (case getField props ''className'' of
              JArr xs \<Rightarrow> joinJS '' '' xs
            | _ \<Rightarrow> Inr []))"



text \<open>The markup of the four container kinds, from the props, the class string and the rendered children.\<close>

definition renderCard :: "jsval \<Rightarrow> jsval \<Rightarrow> string \<Rightarrow> node list \<Rightarrow> node" where
  "renderCard element props customClass children =
     (let maxWidthClass =
            (if getField props ''maxWidth'' = JStr ''sm'' then ''max-w-xs sm:min-w-[280px]''
             else if getField props ''maxWidth'' = JStr ''md'' then ''max-w-sm sm:min-w-[320px]''
             else if getField props ''maxWidth'' = JStr ''lg'' then ''max-w-md sm:min-w-[360px]''
             else ''w-full'');
          centeredClass = (if truthy (getField props ''centered'') then ''mx-auto'' else [])
      in Element ''div'' (getField element ''key'')
           (''border border-border rounded-lg p-3 bg-background overflow-hidden '' @ maxWidthClass @
            '' '' @ centeredClass @ '' '' @ baseClass @ '' '' @ customClass)
           [if truthy (getField props ''title'')
            then Element ''div'' JUndefined ''font-semibold text-sm mb-1 text-left''
                   [Value (getField props ''title'')]
            else Null,
            if truthy (getField props ''description'')
            then Element ''div'' JUndefined ''text-[10px] text-muted-foreground mb-2 text-left''
                   [Value (getField props ''description'')]
            else Null,
            Element ''div'' JUndefined ''space-y-2'' [Fragment children]])"

definition renderStack :: "jsval \<Rightarrow> jsval \<Rightarrow> string \<Rightarrow> node list \<Rightarrow> node" where
  "renderStack element props customClass children =
     (let isHorizontal = (getField props ''direction'' = JStr ''horizontal'');
          stackGap = (if getField props ''gap'' = JStr ''lg'' then ''gap-3''
                      else if getField props ''gap'' = JStr ''sm'' then ''gap-1'' else ''gap-2'')
      in Element ''div'' (getField element ''key'')
           (''flex '' @ (if isHorizontal then ''flex-row flex-wrap items-center'' else ''flex-col'') @
            '' '' @ stackGap @ '' '' @ baseClass @ '' '' @ customClass)
           [Fragment children])"

definition renderGrid :: "jsval \<Rightarrow> jsval \<Rightarrow> string \<Rightarrow> node list \<Rightarrow> node" where
  "renderGrid element props customClass children =
     (let hasCustomCols = includesJS customClass ''grid-cols-'';
          cols = (if hasCustomCols then []
                  else if getField props ''columns'' = JNum ''4'' then ''grid-cols-4''
                  else if getField props ''columns'' = JNum ''3'' then ''grid-cols-3''
                  else if getField props ''columns'' = JNum ''2'' then ''grid-cols-2''
                  else ''grid-cols-1'');
          gridGap = (if getField props ''gap'' = JStr ''lg'' then ''gap-3''
                     else if getField props ''gap'' = JStr ''sm'' then ''gap-1'' else ''gap-2'')
      in Element ''div'' (getField element ''key'')
           (''grid '' @ cols @ '' '' @ gridGap @ '' '' @ baseClass @ '' '' @ customClass)
           [Fragment children])"

definition renderForm :: "jsval \<Rightarrow> jsval \<Rightarrow> string \<Rightarrow> node list \<Rightarrow> node" where
  "renderForm element props customClass children =
     Element ''div'' (getField element ''key'')
       (''border border-border rounded-lg p-3 bg-background '' @ baseClass @ '' '' @ customClass)
       [if truthy (getField props ''title'')
        then Element ''div'' JUndefined ''font-semibold text-sm mb-2 text-left''
               [Value (getField props ''title'')]
        else Null,
        Element ''div'' JUndefined ''space-y-2'' [Fragment children]]"

text \<open>The \<open>default\<close> branch: the type between brackets.\<close>

definition renderUnknown :: "jsval \<Rightarrow> jsval \<Rightarrow> string \<Rightarrow> node" where
  "renderUnknown element ty customClass =
     Element ''div'' (getField element ''key'')
       (''text-[10px] text-muted-foreground '' @ baseClass @ '' '' @ customClass)
       [Text ''['', Value ty, Text '']'']"

text \<open>
  \<open>renderElement\<close> (lines 254 to 477). The element is whatever the read
  \<open>elements[key]\<close> found. The first argument stands for the markup of the seventeen
  kinds without children (it depends on the component's state and on number
  arithmetic, and may throw); the second bounds the depth of the recursion, which in
  JavaScript ends with the RangeError of the exhausted call stack when a child key
  leads back to an element being rendered.
\<close>

fun renderElement ::
  "(string \<Rightarrow> jsval \<Rightarrow> string \<Rightarrow> js_error + node) \<Rightarrow> nat \<Rightarrow> jsval \<Rightarrow> jsobject \<Rightarrow>
     js_error + node" where
  "renderElement renderLeaf 0 element els = Inl RangeError"
| "renderElement renderLeaf (Suc depth) element els =
     (if nullish element then Inl TypeError
      else
        (let ty = getField element ''type'';
             props = getField element ''props'';
             childKeys = (case getField element ''children'' of
                            JUndefined \<Rightarrow> JArr []
                          | c \<Rightarrow> c);
             renderChildren = (\<lambda>u :: unit.
               case childKeys of
                 JArr keys \<Rightarrow>
                   mapE (\<lambda>key.
                     case toStringJS key of
                       Inl e \<Rightarrow> Inl e
                     | Inr k \<Rightarrow>
                        (let child = getElement els k in
                         if truthy child then renderElement renderLeaf depth child els
                         else Inr Null)) keys
               | _ \<Rightarrow> Inl TypeError)
         in
         case customClassOf props of
           Inl e \<Rightarrow> Inl e
         | Inr customClass \<Rightarrow>
            (case ty of
               JStr t \<Rightarrow>
                 if t = ''Card''
                 then (case renderChildren () of
                         Inl e \<Rightarrow> Inl e
                       | Inr children \<Rightarrow> Inr (renderCard element props customClass children))
                 else if t = ''Stack''
                 then (case renderChildren () of
                         Inl e \<Rightarrow> Inl e
                       | Inr children \<Rightarrow> Inr (renderStack element props customClass children))
                 else if t = ''Grid''
                 then (case renderChildren () of
                         Inl e \<Rightarrow> Inl e
                       | Inr children \<Rightarrow> Inr (renderGrid element props customClass children))
                 else if t = ''Form''
                 then (case renderChildren () of
                         Inl e \<Rightarrow> Inl e
                       | Inr children \<Rightarrow> Inr (renderForm element props customClass children))
                 else if t \<in> set leafKinds then renderLeaf t element customClass
                 else Inr (renderUnknown element ty customClass)
             | _ \<Rightarrow> Inr (renderUnknown element ty customClass))))"

datatype mode = Simulation | Interactive

record simulation_stage =
  stage_tree :: UITree
  stage_stream :: string

definition waitingPlaceholder :: "bool \<Rightarrow> node" where
  "waitingPlaceholder isLoading =
     Element ''div'' JUndefined
       ''h-full flex items-center justify-center text-muted-foreground/50 text-sm''
       [Value (JStr (if isLoading then ''generating...'' else ''waiting...''))]"

text \<open>
  \<open>renderPreview\<close> (lines 480 to 502), from the component's state: the mode, the
  current stage of the simulation, the \<open>tree\<close> (\<open>None\<close> for \<open>null\<close>), \<open>isLoading\<close> and
  \<open>actionFired\<close>.
\<close>

definition renderPreview ::
  "(string \<Rightarrow> jsval \<Rightarrow> string \<Rightarrow> js_error + node) \<Rightarrow> nat \<Rightarrow> mode \<Rightarrow> simulation_stage option \<Rightarrow>
     UITree option \<Rightarrow> bool \<Rightarrow> bool \<Rightarrow> js_error + node" where
  "renderPreview renderLeaf depth md currentSimulationStage treeSt isLoading actionFired =
     (let currentTree = (if md = Simulation then map_option stage_tree currentSimulationStage
                         else treeSt)
      in case currentTree of
           None \<Rightarrow> Inr (waitingPlaceholder isLoading)
         | Some t \<Rightarrow>
             if \<not> truthy (root t) then Inr (waitingPlaceholder isLoading)
             else
               (case toStringJS (root t) of
                  Inl e \<Rightarrow> Inl e
                | Inr k \<Rightarrow>
                   if \<not> truthy (getElement (elements t) k) then Inr (waitingPlaceholder isLoading)
                   else
                     (let rootElement = getElement (elements t) k in
                      if \<not> truthy rootElement then Inr Null
                      else
                        (case renderElement renderLeaf depth rootElement (elements t) of
                           Inl e \<Rightarrow> Inl e
                         | Inr rendered \<Rightarrow>
                            Inr (Element ''div'' JUndefined
                                   ''animate-in fade-in duration-200 w-full flex flex-col items-center py-4''
                                   [Element ''div'' JUndefined ''my-auto''
                                      [rendered,
                                       if actionFired
                                       then Element ''div'' JUndefined
                                              ''mt-3 text-xs font-mono text-muted-foreground text-center animate-in fade-in slide-in-from-bottom-2''
                                              [Text ''onAction()'']
                                       else Value (JBool False)]])))))"

section \<open>The scripted demo fixture\<close>

text \<open>The element records of \<open>SIMULATION_STAGES\<close> (lines 25 to 46).\<close>

definition cardElement :: "string list \<Rightarrow> jsval" where
  "cardElement children =
     JObj [(''key'', JStr ''card''), (''type'', JStr ''Card''),
           (''props'', JObj [(''title'', JStr ''Contact Us''), (''maxWidth'', JStr ''md'')]),
           (''children'', JArr (map JStr children))]"

definition nameElement :: jsval where
  "nameElement =
     JObj [(''key'', JStr ''name''), (''type'', JStr ''Input''),
           (''props'', JObj [(''label'', JStr ''Name''), (''name'', JStr ''name'')])]"

definition emailElement :: jsval where
  "emailElement =
     JObj [(''key'', JStr ''email''), (''type'', JStr ''Input''),
           (''props'', JObj [(''label'', JStr ''Email''), (''name'', JStr ''email'')])]"

definition messageElement :: jsval where
  "messageElement =
     JObj [(''key'', JStr ''message''), (''type'', JStr ''Textarea''),
           (''props'', JObj [(''label'', JStr ''Message''), (''name'', JStr ''message'')])]"

definition submitElement :: jsval where
  "submitElement =
     JObj [(''key'', JStr ''submit''), (''type'', JStr ''Button''),
           (''props'', JObj [(''label'', JStr ''Send Message''), (''variant'', JStr ''primary'')])]"

definition stageTree :: "(string \<times> jsval) list \<Rightarrow> UITree" where
  "stageTree entries =
     \<lparr>root = JStr ''card'', elements = \<lparr>own = map_of entries, proto = ObjectPrototype\<rparr>\<rparr>"

definition SIMULATION_STAGES :: "simulation_stage list" where
  \<open>SIMULATION_STAGES =
     [\<lparr>stage_tree = stageTree [(''card'', cardElement [])],
       stage_stream = ''{"op":"set","path":"/root","value":"card"}''\<rparr>,
      \<lparr>stage_tree = stageTree [(''card'', cardElement [''name'']), (''name'', nameElement)],
       stage_stream = ''{"op":"add","path":"/elements/card","value":{"key":"card","type":"Card","props":{"title":"Contact Us","maxWidth":"md"},"children":["name"]}}''\<rparr>,
      \<lparr>stage_tree = stageTree [(''card'', cardElement [''name'', ''email'']),
                                (''name'', nameElement), (''email'', emailElement)],
       stage_stream = ''{"op":"add","path":"/elements/email","value":{"key":"email","type":"Input","props":{"label":"Email","name":"email"}}}''\<rparr>,
      \<lparr>stage_tree = stageTree [(''card'', cardElement [''name'', ''email'', ''message'']),
                                (''name'', nameElement), (''email'', emailElement),
                                (''message'', messageElement)],
       stage_stream = ''{"op":"add","path":"/elements/message","value":{"key":"message","type":"Textarea","props":{"label":"Message","name":"message"}}}''\<rparr>,
      \<lparr>stage_tree = stageTree [(''card'', cardElement [''name'', ''email'', ''message'', ''submit'']),
                                (''name'', nameElement), (''email'', emailElement),
                                (''message'', messageElement), (''submit'', submitElement)],
       stage_stream = ''{"op":"add","path":"/elements/submit","value":{"key":"submit","type":"Button","props":{"label":"Send Message","variant":"primary"}}}''\<rparr>]\<close>

text \<open>The five stream lines of the fixture, as the values \<open>JSON.parse\<close> returns for them.\<close>

definition stagePatches :: "jsval list" where
  "stagePatches =
     [mkPatch ''set'' ''/root'' (JStr ''card''),
      mkPatch ''add'' ''/elements/card'' (cardElement [''name'']),
      mkPatch ''add'' ''/elements/email'' emailElement,
      mkPatch ''add'' ''/elements/message'' messageElement,
      mkPatch ''add'' ''/elements/submit'' submitElement]"

text \<open>A parser that knows the five lines of the fixture and rejects everything else, for examples.\<close>

definition fixtureParse :: "string \<Rightarrow> jsval option" where
  "fixtureParse = map_of (zip (map stage_stream SIMULATION_STAGES) stagePatches)"

text \<open>The read \<open>tree.elements[tree.root].children\<close>.\<close>

definition rootChildren :: "UITree \<Rightarrow> js_error + jsval" where
  "rootChildren tree =
     (case toStringJS (root tree) of
        Inl e \<Rightarrow> Inl e
      | Inr k \<Rightarrow>
         (if nullish (getElement (elements tree) k) then Inl TypeError
          else Inr (getField (getElement (elements tree) k) ''children'')))"

section \<open>Example inputs\<close>

text \<open>The first line of the fixture, delivered in three pieces.\<close>

definition threePieces :: "string list" where
  \<open>threePieces = [''{"op":"set","pa'', ''th":"/root","val'', ''ue":"card"}'']\<close>





text \<open>
  A tree whose card names the child \<open>constructor\<close>, for which the element map has
  no entry.
\<close>

definition danglingTree :: UITree where
  "danglingTree =
     \<lparr>root = JStr ''card'',
      elements = \<lparr>own = [''card'' \<mapsto>
                     JObj [(''key'', JStr ''card''), (''type'', JStr ''Card''),
                           (''props'', JObj []),
                           (''children'', JArr [JStr ''constructor''])]],
                  proto = ObjectPrototype\<rparr>\<rparr>"

text \<open>A heap with the empty tree at address 0 and its \<open>elements\<close> object at address 1.\<close>

definition emptyTreeHeap :: heap where
  "emptyTreeHeap = [TreeObject (JStr []) 1, DictObject \<lparr>own = Map.empty, proto = ObjectPrototype\<rparr>]"

section \<open>Properties of the patch applier\<close>

lemma getField_mkPatch [simp]:
  "getField (mkPatch opn path v) ''path'' = JStr path"
  "getField (mkPatch opn path v) ''op'' = JStr opn"
  "getField (mkPatch opn path v) ''value'' = v"
  by (simp_all add: mkPatch_def)

lemma nullish_mkPatch [simp]: "\<not> nullish (mkPatch opn path v)"
  by (simp add: mkPatch_def nullish_def)

lemma splitOn_not_Nil [simp]: "splitOn c s \<noteq> []"
  by (induction s) (auto split: list.splits)

lemma hd_splitOn: "hd (splitOn c s) = takeWhile (\<lambda>x. x \<noteq> c) s"
  by (induction s) (auto split: list.splits)

lemma takeWhile_key:
  "c \<notin> set k \<Longrightarrow> r = [] \<or> hd r = c \<Longrightarrow> takeWhile (\<lambda>x. x \<noteq> c) (k @ r) = k"
  by (induction k) (cases r; auto)+

text \<open>The key of a path \<open>/elements/k\<close> or \<open>/elements/k/...\<close> is \<open>k\<close>.\<close>

lemma key_of_path:
  assumes "CHR ''/'' \<notin> set k" and "r = [] \<or> hd r = CHR ''/''"
  shows "hd (splitOn CHR ''/'' (k @ r)) = k"
  using assms by (simp add: hd_splitOn takeWhile_key)

lemma applyPatch_elements:
  assumes "k \<noteq> []" and "CHR ''/'' \<notin> set k" and "r = [] \<or> hd r = CHR ''/''"
    and "opn = ''set'' \<or> opn = ''add''"
  shows "applyPatch t (mkPatch opn (''/elements/'' @ k @ r) v) =
           Inr (t\<lparr>elements := setElement (spreadObject (elements t)) k v\<rparr>)"
  using assms key_of_path[of k r]
  by (auto simp add: applyPatch_def Let_def startsWith_def)

text \<open>
  Last write wins for every key but \<open>__proto__\<close>: after two patches on
  \<open>/elements/k\<close> the entry at \<open>k\<close> is the second value, and the tree is the one the
  second patch alone gives.
\<close>

lemma applyPatch_elements_last_write_wins:
  assumes k: "k \<noteq> []" "CHR ''/'' \<notin> set k" and np: "k \<noteq> ''__proto__''"
    and r1: "r1 = [] \<or> hd r1 = CHR ''/''" and r2: "r2 = [] \<or> hd r2 = CHR ''/''"
    and o1: "op1 = ''set'' \<or> op1 = ''add''" and o2: "op2 = ''set'' \<or> op2 = ''add''"
  shows "\<exists>t1 t2. applyPatch t (mkPatch op1 (''/elements/'' @ k @ r1) v1) = Inr t1 \<and>
           applyPatch t1 (mkPatch op2 (''/elements/'' @ k @ r2) v2) = Inr t2 \<and>
           own (elements t2) k = Some v2 \<and> getElement (elements t2) k = v2 \<and>
           applyPatch t (mkPatch op2 (''/elements/'' @ k @ r2) v2) = Inr t2"
proof -
  let ?t1 = "t\<lparr>elements := setElement (spreadObject (elements t)) k v1\<rparr>"
  let ?t2 = "?t1\<lparr>elements := setElement (spreadObject (elements ?t1)) k v2\<rparr>"
  have a1: "applyPatch t (mkPatch op1 (''/elements/'' @ k @ r1) v1) = Inr ?t1"
    by (rule applyPatch_elements[OF k r1 o1])
  have a2: "applyPatch ?t1 (mkPatch op2 (''/elements/'' @ k @ r2) v2) = Inr ?t2"
    by (rule applyPatch_elements[OF k r2 o2])
  have a3: "applyPatch t (mkPatch op2 (''/elements/'' @ k @ r2) v2) =
              Inr (t\<lparr>elements := setElement (spreadObject (elements t)) k v2\<rparr>)"
    by (rule applyPatch_elements[OF k r2 o2])
  have s: "\<And>obj v. setElement obj k v = obj\<lparr>own := (own obj)(k \<mapsto> v)\<rparr>"
    using np by (simp add: setElement_def reachesProtoSetter_def)
  have e: "?t2 = t\<lparr>elements := setElement (spreadObject (elements t)) k v2\<rparr>"
    by (simp add: s spreadObject_def)
  have "own (elements ?t2) k = Some v2" by (simp add: s)
  moreover have "getElement (elements ?t2) k = v2" by (simp add: s getElement_def)
  ultimately show ?thesis using a1 a2 a3 e by metis
qed

text \<open>
  C1. Two patches on \<open>/elements/k\<close> leave the second value at \<open>k\<close>: not for the key
  \<open>__proto__\<close>. After an \<open>add\<close> of an element record and a \<open>set\<close> of the string
  \<open>x\<close>, both on \<open>/elements/__proto__\<close>, the element map has no entry at that key,
  and the read \<open>tree.elements["__proto__"]\<close> gives \<open>Object.prototype\<close>.
\<close>

theorem applyPatch_proto_key_not_stored:
  "\<exists>t1 t2.
     applyPatch emptyTree (mkPatch ''add'' ''/elements/__proto__'' nameElement) = Inr t1 \<and>
     applyPatch t1 (mkPatch ''set'' ''/elements/__proto__'' (JStr ''x'')) = Inr t2 \<and>
     own (elements t2) ''__proto__'' = None \<and>
     getElement (elements t2) ''__proto__'' = JBuiltin ''Object.prototype'' \<and>
     getElement (elements t2) ''__proto__'' \<noteq> JStr ''x''"
  by (simp add: applyPatch_def Let_def startsWith_def spreadObject_def emptyTree_def
      setElement_def reachesProtoSetter_def getElement_def getFromObjectPrototype_def
      nameElement_def)

lemma getField_not_nullish: "getField v k = JStr s \<Longrightarrow> \<not> nullish v"
  by (auto simp: nullish_def)

text \<open>
  C2. A patch with path \<open>/root\<close> and value \<open>v\<close> yields a tree whose root is \<open>v\<close>,
  whatever the root was before (and whatever the op, and whatever else the patch
  object holds).
\<close>

theorem applyPatch_root_sets_root:
  "getField patch ''path'' = JStr ''/root'' \<Longrightarrow>
     \<exists>t'. applyPatch t patch = Inr t' \<and> root t' = getField patch ''value''"
  by (frule getField_not_nullish) (simp add: applyPatch_def Let_def)

theorem applyPatch_root_sets_root_witness:
  "getField (mkPatch ''set'' ''/root'' (JStr ''card'')) ''path'' = JStr ''/root'' \<and>
   (\<exists>t'. applyPatch (emptyTree\<lparr>root := JStr ''form''\<rparr>)
           (mkPatch ''set'' ''/root'' (JStr ''card'')) = Inr t' \<and>
         root t' = JStr ''card'')"
proof -
  have h: "getField (mkPatch ''set'' ''/root'' (JStr ''card'')) ''path'' = JStr ''/root''" by simp
  from applyPatch_root_sets_root[OF h, of "emptyTree\<lparr>root := JStr ''form''\<rparr>"] h
  show ?thesis by simp
qed

text \<open>
  A patch on another path, or on an element path with an op other than \<open>set\<close> and
  \<open>add\<close>, returns a copy of the tree with the same root and the same entries.
\<close>

lemma applyPatch_other_noop:
  assumes "path \<noteq> ''/root''"
    and "\<not> startsWith path ''/elements/'' \<or> (opn \<noteq> ''set'' \<and> opn \<noteq> ''add'')"
  shows "applyPatch t (mkPatch opn path v) = Inr (t\<lparr>elements := spreadObject (elements t)\<rparr>)"
  using assms by (auto simp add: applyPatch_def Let_def)

text \<open>
  C3. A patch with an op other than \<open>set\<close> and \<open>add\<close> is a no-op: not on the path
  \<open>/root\<close>, where the op is never looked at. The patch
  \<open>{"op":"remove","path":"/root","value":"x"}\<close> turns the root of the empty tree into
  \<open>x\<close>.
\<close>

theorem applyPatch_root_ignores_op:
  "applyPatch emptyTree (mkPatch ''remove'' ''/root'' (JStr ''x'')) =
     Inr (emptyTree\<lparr>root := JStr ''x''\<rparr>) \<and>
   root (emptyTree\<lparr>root := JStr ''x''\<rparr>) \<noteq> root emptyTree"
  by (simp add: applyPatch_def Let_def emptyTree_def spreadObject_def)

text \<open>
  C10. A patch whose path is exactly \<open>/elements/\<close> changes nothing, whatever its op
  and value (also \<open>set\<close> and \<open>add\<close>): the returned tree has the root and the entries of the input, so no entry
  appears under the empty key; it is the input tree itself when the element map has
  the prototype every object literal gives it.
\<close>

theorem applyPatch_empty_key_noop:
  "getField patch ''path'' = JStr ''/elements/'' \<Longrightarrow>
   \<exists>t'. applyPatch t patch = Inr t' \<and>
        root t' = root t \<and>
        own (elements t') = own (elements t) \<and>
        own (elements t') [] = own (elements t) [] \<and>
        (proto (elements t) = ObjectPrototype \<longrightarrow> t' = t)"
  by (frule getField_not_nullish) (simp add: applyPatch_def Let_def startsWith_def spreadObject_def)

theorem applyPatch_empty_key_noop_witness:
  "getField (mkPatch ''add'' ''/elements/'' nameElement) ''path'' = JStr ''/elements/'' \<and>
   (\<exists>t'. applyPatch emptyTree (mkPatch ''add'' ''/elements/'' nameElement) = Inr t' \<and>
        root t' = root emptyTree \<and>
        own (elements t') = own (elements emptyTree) \<and>
        own (elements t') [] = None \<and>
        proto (elements emptyTree) = ObjectPrototype \<and> t' = emptyTree)"
proof -
  have h: "getField (mkPatch ''add'' ''/elements/'' nameElement) ''path'' = JStr ''/elements/''"
    by simp
  have p: "proto (elements emptyTree) = ObjectPrototype" by (simp add: emptyTree_def)
  have e: "own (elements emptyTree) [] = None" by (simp add: emptyTree_def)
  from applyPatch_empty_key_noop[OF h, of emptyTree] h p e
  show ?thesis by auto
qed

section \<open>The fixture\<close>

text \<open>
  C6, as stated: the five patch lines of the fixture, applied in order to the empty
  tree, give a root element with the children \<open>name\<close>, \<open>email\<close>, \<open>message\<close>,
  \<open>submit\<close>. They do not.
\<close>

theorem fixture_patches_not_four_children:
  "\<not> (\<exists>t. applyPatches emptyTree stagePatches = Inr t \<and>
          rootChildren t =
            Inr (JArr [JStr ''name'', JStr ''email'', JStr ''message'', JStr ''submit'']))"
  by (simp add: stagePatches_def applyPatch_def Let_def emptyTree_def mkPatch_def nullish_def
      startsWith_def spreadObject_def setElement_def reachesProtoSetter_def rootChildren_def
      getElement_def cardElement_def)

text \<open>
  C6, amended: the five patch lines give the root \<open>card\<close>, the entries \<open>card\<close>,
  \<open>email\<close>, \<open>message\<close> and \<open>submit\<close>, and a root element whose children are
  \<open>name\<close> alone (the only \<open>card\<close> patch is the second line). The four children are
  those of the tree the fixture records for its last stage, which the simulation shows
  without applying any patch.
\<close>

theorem fixture_patches_children:
  "\<exists>t. applyPatches emptyTree stagePatches = Inr t \<and>
       root t = JStr ''card'' \<and>
       rootChildren t = Inr (JArr [JStr ''name'']) \<and>
       dom (own (elements t)) = {''card'', ''email'', ''message'', ''submit''} \<and>
       rootChildren (stage_tree (last SIMULATION_STAGES)) =
         Inr (JArr [JStr ''name'', JStr ''email'', JStr ''message'', JStr ''submit''])"
  by (auto simp add: stagePatches_def applyPatch_def Let_def emptyTree_def mkPatch_def
      nullish_def startsWith_def spreadObject_def setElement_def reachesProtoSetter_def
      rootChildren_def getElement_def cardElement_def SIMULATION_STAGES_def stageTree_def)

lemma fixtureParse_lines:
  "map fixtureParse (map stage_stream SIMULATION_STAGES) = map Some stagePatches"
  by (simp add: fixtureParse_def SIMULATION_STAGES_def stagePatches_def)

section \<open>The patch applier does not write to its argument\<close>

lemma update_fresh:
  "(h @ [x, y])[length h := x'] = h @ [x', y]"
  "(h @ [x, y])[Suc (length h) := y'] = h @ [x, y']"
  by (simp_all add: list_update_append)

text \<open>The heap version computes what \<open>applyPatch\<close> computes, in two new objects.\<close>

lemma applyPatchHeap_applyPatch:
  assumes tr: "heapGet h tree = Some (TreeObject r e)" and el: "heapGet h e = Some (DictObject d)"
  shows "applyPatchHeap h tree patch =
           (case applyPatch \<lparr>root = r, elements = d\<rparr> patch of
              Inl err \<Rightarrow>
                (h @ [TreeObject r (Suc (length h)), DictObject (spreadObject d)], Inl err)
            | Inr t' \<Rightarrow>
                (h @ [TreeObject (root t') (Suc (length h)), DictObject (elements t')],
                 Inr (length h)))"
  by (simp add: applyPatchHeap_def applyPatch_def tr el Let_def update_fresh split: jsval.splits)

text \<open>
  C9. \<open>applyPatch\<close> does not mutate its input. Whatever the patch, after the call the
  input tree's address holds the same root and the same elements mapping, and so does
  every object that existed before; the tree returned is a new object (its address is
  beyond the old heap) and holds the result of \<open>applyPatch\<close>.
\<close>

theorem applyPatchHeap_frame:
  assumes t: "treeAt h tree = Some t" and run: "applyPatchHeap h tree patch = (h', res)"
  shows "treeAt h' tree = Some t \<and>
         (\<forall>a<length h. heapGet h' a = heapGet h a) \<and>
         (case res of
            Inl e \<Rightarrow> applyPatch t patch = Inl e
          | Inr a \<Rightarrow> length h \<le> a \<and> map_option Inr (treeAt h' a) = Some (applyPatch t patch))"
proof -
  from t obtain r e d where tr: "heapGet h tree = Some (TreeObject r e)"
    and el: "heapGet h e = Some (DictObject d)" and tv: "t = \<lparr>root = r, elements = d\<rparr>"
    by (auto simp: treeAt_def split: option.splits heap_object.splits)
  note eq = applyPatchHeap_applyPatch[OF tr el, of patch, folded tv]
  from run eq obtain x y where h': "h' = h @ [x, y]"
    by (auto split: sum.splits)
  have frame: "\<forall>a<length h. heapGet h' a = heapGet h a"
    by (simp add: h' heapGet_def nth_append)
  have lt: "tree < length h" "e < length h"
    using tr el by (auto simp: heapGet_def split: if_splits)
  have same: "treeAt h' tree = Some t"
    using frame lt by (simp add: treeAt_def tr el tv)
  have res: "(case res of
            Inl e \<Rightarrow> applyPatch t patch = Inl e
          | Inr a \<Rightarrow> length h \<le> a \<and> map_option Inr (treeAt h' a) = Some (applyPatch t patch))"
    using run eq
    by (auto simp: treeAt_def heapGet_def nth_append split: sum.splits)
  from same frame res show ?thesis by blast
qed

theorem applyPatchHeap_frame_witness:
  "treeAt emptyTreeHeap 0 = Some emptyTree \<and>
   applyPatchHeap emptyTreeHeap 0 (mkPatch ''add'' ''/elements/name'' nameElement) =
     (emptyTreeHeap @
        [TreeObject (JStr []) 3,
         DictObject \<lparr>own = [''name'' \<mapsto> nameElement], proto = ObjectPrototype\<rparr>], Inr 2) \<and>
   treeAt (emptyTreeHeap @
        [TreeObject (JStr []) 3,
         DictObject \<lparr>own = [''name'' \<mapsto> nameElement], proto = ObjectPrototype\<rparr>]) 0 = Some emptyTree"
proof -
  have t: "treeAt emptyTreeHeap 0 = Some emptyTree"
    by (simp add: treeAt_def heapGet_def emptyTreeHeap_def emptyTree_def)
  have run: "applyPatchHeap emptyTreeHeap 0 (mkPatch ''add'' ''/elements/name'' nameElement) =
     (emptyTreeHeap @
        [TreeObject (JStr []) 3,
         DictObject \<lparr>own = [''name'' \<mapsto> nameElement], proto = ObjectPrototype\<rparr>], Inr 2)"
    by (simp add: applyPatchHeap_def heapGet_def emptyTreeHeap_def Let_def startsWith_def
        spreadObject_def setElement_def reachesProtoSetter_def)
  from applyPatchHeap_frame[OF t run] t run show ?thesis by blast
qed

section \<open>Properties of the stream consumer\<close>

lemma splitOn_append:
  "splitOn c (xs @ ys) = butlast (splitOn c xs) @ splitOn c (last (splitOn c xs) @ ys)"
proof (induction xs)
  case Nil
  then show ?case by simp
next
  case (Cons x xs)
  then show ?case
    by (cases "splitOn c xs"; cases "splitOn c (last (splitOn c xs) @ ys)")
       (auto split: list.splits if_splits)
qed

lemma splitOn_no_sep: "c \<notin> set s \<Longrightarrow> splitOn c s = [s]"
  by (induction s) auto

lemma splitOn_parts_no_sep: "l \<in> set (splitOn c s) \<Longrightarrow> c \<notin> set l"
  by (induction s arbitrary: l) (auto split: list.splits if_splits)

lemma last_splitOn_no_sep: "c \<notin> set (last (splitOn c s))"
  by (rule splitOn_parts_no_sep[of _ c s]) simp

lemma decodeChunk_append:
  "decodeChunk f d (a @ b) =
     (case decodeChunk f d a of
        (d1, t1) \<Rightarrow> (case decodeChunk f d1 b of (d2, t2) \<Rightarrow> (d2, t1 @ t2)))"
  by (induction a arbitrary: d) (auto split: prod.splits)

lemma processLines_append:
  "processLines jp st (xs @ ys) =
     (case processLines jp st xs of
        (st', Some e) \<Rightarrow> (st', Some e)
      | (st', None) \<Rightarrow> processLines jp st' ys)"
  by (induction xs arbitrary: st) (auto split: sum.splits)

text \<open>
  What the loop has done after some chunks: it has processed, in order, every complete
  line of the text decoded so far, and its buffer is the unfinished last line.
\<close>

lemma readLoop_lines:
  "CHR 0x0A \<notin> set buffer \<Longrightarrow>
   decodeChunk f d (concat chunks) = (d', decoded) \<Longrightarrow>
   readLoop jp f d buffer st chunks = (b, r) \<Longrightarrow>
   r = processLines jp st (butlast (splitOn CHR 0x0A (buffer @ decoded))) \<and>
   (snd r = None \<longrightarrow> b = last (splitOn CHR 0x0A (buffer @ decoded)))"
proof (induction chunks arbitrary: d d' buffer st decoded)
  case Nil
  then show ?case by (auto simp: splitOn_no_sep)
next
  case (Cons chunk chunks)
  obtain d1 t1 where c1: "decodeChunk f d chunk = (d1, t1)" by fastforce
  obtain d2 t2 where c2: "decodeChunk f d1 (concat chunks) = (d2, t2)" by fastforce
  from Cons.prems(2) c1 c2 have dec: "decoded = t1 @ t2"
    by (auto simp: decodeChunk_append)
  let ?lines = "splitOn CHR 0x0A (buffer @ t1)"
  let ?buf = "last ?lines"
  have nb: "CHR 0x0A \<notin> set ?buf" by (rule last_splitOn_no_sep)
  have sp: "splitOn CHR 0x0A (buffer @ decoded) = butlast ?lines @ splitOn CHR 0x0A (?buf @ t2)"
    using splitOn_append[of "CHR 0x0A" "buffer @ t1" t2] by (simp add: dec)
  have bl: "butlast (splitOn CHR 0x0A (buffer @ decoded)) =
              butlast ?lines @ butlast (splitOn CHR 0x0A (?buf @ t2))"
    by (simp add: sp butlast_append)
  have la: "last (splitOn CHR 0x0A (buffer @ decoded)) = last (splitOn CHR 0x0A (?buf @ t2))"
    by (simp add: sp)
  obtain st' err where pl: "processLines jp st (butlast ?lines) = (st', err)" by fastforce
  show ?case
  proof (cases err)
    case None
    with Cons.prems(3) c1 pl have "readLoop jp f d1 ?buf st' chunks = (b, r)"
      by (simp add: Let_def)
    from Cons.IH[OF nb c2 this] show ?thesis
      by (simp add: bl la processLines_append pl None)
  next
    case (Some e)
    with Cons.prems(3) c1 pl have "r = (st', Some e)"
      by (auto simp: Let_def)
    then show ?thesis by (simp add: bl processLines_append pl Some)
  qed
qed

text \<open>The consumer depends on the chunks only through the text they decode to.\<close>

lemma consumeStream_content:
  "consumeStream jp f d0 chunks = linesOutcome jp (snd (decodeChunk f d0 (concat chunks)))"
proof -
  obtain d' decoded where dc: "decodeChunk f d0 (concat chunks) = (d', decoded)" by fastforce
  obtain b st err where rl: "readLoop jp f d0 [] initialState chunks = (b, st, err)"
    by (metis prod_cases3)
  from readLoop_lines[OF _ dc rl]
  have r: "(st, err) = processLines jp initialState (butlast (splitOn CHR 0x0A decoded))"
    and b: "err = None \<Longrightarrow> b = last (splitOn CHR 0x0A decoded)"
    by simp_all
  show ?thesis
    using b by (cases err) (simp_all add: consumeStream_def linesOutcome_def rl dc r[symmetric] Let_def)
qed

text \<open>
  C4. However the bytes of a response are split into chunks, also in the middle of a
  line, the consumer ends with the same tree (and the same stream lines, and the same
  logged exception if a patch made \<open>applyPatch\<close> throw): two deliveries of the same
  bytes agree, and each agrees with the delivery as one chunk.
\<close>

theorem consumeStream_chunking:
  "concat chunks' = concat chunks \<Longrightarrow>
     consumeStream jp f d0 chunks' = consumeStream jp f d0 chunks \<and>
     consumeStream jp f d0 chunks = consumeStream jp f d0 [concat chunks]"
  by (simp add: consumeStream_content)

lemma consumeStream_first_line:
  "treeState (fst (consumeStream fixtureParse asciiDecodeByte () [stage_stream (hd SIMULATION_STAGES)])) =
     emptyTree\<lparr>root := JStr ''card''\<rparr>"
  by (simp add: consumeStream_def SIMULATION_STAGES_def asciiDecodeByte_def Let_def
      flushBuffer_def trim_def isWhiteSpace_def parsePatch_def startsWith_def fixtureParse_def
      stagePatches_def applyPatch_def initialState_def spreadObject_def emptyTree_def
      mkPatch_def nullish_def)

theorem consumeStream_chunking_witness:
  "concat threePieces = concat [stage_stream (hd SIMULATION_STAGES)] \<and>
   consumeStream fixtureParse asciiDecodeByte () threePieces =
     consumeStream fixtureParse asciiDecodeByte () [stage_stream (hd SIMULATION_STAGES)] \<and>
   treeState (fst (consumeStream fixtureParse asciiDecodeByte () threePieces)) =
     emptyTree\<lparr>root := JStr ''card''\<rparr>"
proof -
  have h: "concat threePieces = concat [stage_stream (hd SIMULATION_STAGES)]"
    by (simp add: threePieces_def SIMULATION_STAGES_def)
  from consumeStream_chunking[OF h, of fixtureParse asciiDecodeByte "()"]
  have c: "consumeStream fixtureParse asciiDecodeByte () threePieces =
     consumeStream fixtureParse asciiDecodeByte () [stage_stream (hd SIMULATION_STAGES)]"
    by (rule conjunct1)
  show ?thesis using h c consumeStream_first_line by simp
qed

text \<open>A line that starts with \<open>//\<close> still does after trimming.\<close>

lemma not_ws_slash: "\<not> isWhiteSpace CHR ''/''"
  by (simp add: isWhiteSpace_def)

lemma trim_keeps_comment_prefix:
  assumes "startsWith line ''//''"
  shows "startsWith (trim line) ''//''"
proof -
  from assms obtain rest where l: "line = CHR ''/'' # CHR ''/'' # rest"
    by (cases line; cases "tl line") (auto simp: startsWith_def)
  have "\<exists>zs. dropWhile isWhiteSpace (rev rest @ [CHR ''/'', CHR ''/'']) = zs @ [CHR ''/'', CHR ''/'']"
    by (simp add: dropWhile_append not_ws_slash)
  then obtain zs
    where "dropWhile isWhiteSpace (rev rest @ [CHR ''/'', CHR ''/'']) = zs @ [CHR ''/'', CHR ''/'']"
    by blast
  then show ?thesis
    by (simp add: trim_def l not_ws_slash startsWith_def)
qed

text \<open>
  C5. A line that trims to nothing, starts with \<open>//\<close> or fails to parse makes
  \<open>parsePatch\<close> return \<open>null\<close>; the loop body leaves the state as it is and raises
  nothing, the lines after it are processed as if it were not there, and as the
  trailing buffer it is dropped as well.
\<close>

theorem malformed_line_skipped:
  assumes "trim line = [] \<or> startsWith (trim line) ''//'' \<or> jsonParse (trim line) = None"
  shows "parsePatch jsonParse line = JNull \<and>
         processLine jsonParse st line = Inr st \<and>
         processLines jsonParse st (before @ line # after) = processLines jsonParse st (before @ after) \<and>
         flushBuffer jsonParse line st = (st, None)"
proof -
  have n: "parsePatch jsonParse line = JNull" using assms by (auto simp: parsePatch_def Let_def)
  then have p: "\<And>s. processLine jsonParse s line = Inr s" by (simp add: processLine_def)
  have "processLines jsonParse st (before @ line # after) = processLines jsonParse st (before @ after)"
    by (simp add: processLines_append p split: prod.splits option.splits)
  moreover have "flushBuffer jsonParse line st = (st, None)" using n by (simp add: flushBuffer_def)
  ultimately show ?thesis using n p by simp
qed

theorem malformed_line_skipped_witness:
  "fixtureParse (trim ''{oops'') = None \<and>
   parsePatch fixtureParse ''{oops'' = JNull \<and>
   processLine fixtureParse initialState ''{oops'' = Inr initialState \<and>
   processLines fixtureParse initialState ([] @ ''{oops'' # map stage_stream SIMULATION_STAGES) =
     processLines fixtureParse initialState ([] @ map stage_stream SIMULATION_STAGES) \<and>
   flushBuffer fixtureParse ''{oops'' initialState = (initialState, None)"
proof -
  have h: "fixtureParse (trim ''{oops'') = None"
    by (simp add: trim_def isWhiteSpace_def fixtureParse_def SIMULATION_STAGES_def stagePatches_def)
  then have d: "trim ''{oops'' = [] \<or> startsWith (trim ''{oops'') ''//'' \<or>
             fixtureParse (trim ''{oops'') = None" by simp
  from malformed_line_skipped[where line = "''{oops''" and jsonParse = fixtureParse
      and st = initialState and before = "[]" and after = "map stage_stream SIMULATION_STAGES", OF d] h
  show ?thesis by blast
qed

text \<open>
  The limit of this tolerance: a line that does parse, to a value that is truthy and
  has no string under \<open>path\<close> (a number, a string, an array, an object of another
  shape), makes \<open>applyPatch\<close> throw; the loop ends there and the lines after it are
  not processed.
\<close>

lemma applyPatch_no_path:
  assumes "\<And>s. getField v ''path'' \<noteq> JStr s"
  shows "applyPatch t v = Inl TypeError"
  using assms by (cases "getField v ''path''") (auto simp: applyPatch_def Let_def)

lemma line_without_path_aborts:
  assumes "trim line \<noteq> []" and "\<not> startsWith (trim line) ''//''"
    and "jsonParse (trim line) = Some v" and "truthy v"
    and "\<And>s. getField v ''path'' \<noteq> JStr s"
  shows "processLine jsonParse st line = Inl TypeError"
    and "processLines jsonParse st (line # after) = (st, Some TypeError)"
  using assms by (simp_all add: processLine_def parsePatch_def Let_def applyPatch_no_path)

text \<open>The same for a whole response: a malformed line can be cut out of the text.\<close>

lemma splitOn_line: "c \<notin> set l \<Longrightarrow> splitOn c (l @ c # rest) = l # splitOn c rest"
  by (induction l) auto

lemma last_splitOn_sep:
  assumes "s \<noteq> []" and "last s = c"
  shows "last (splitOn c s) = []"
proof -
  from assms have s: "s = butlast s @ [c]" by (metis append_butlast_last_id)
  have "splitOn c (last (splitOn c (butlast s)) @ [c]) = [last (splitOn c (butlast s)), []]"
    using splitOn_line[OF last_splitOn_no_sep, of c "butlast s" "[]"] by simp
  then have "last (splitOn c (butlast s @ [c])) = []"
    using splitOn_append[of c "butlast s" "[c]"] by simp
  with s show ?thesis by simp
qed

lemma splitOn_after_prefix:
  assumes "pre = [] \<or> last pre = c"
  shows "splitOn c (pre @ rest) = butlast (splitOn c pre) @ splitOn c rest"
proof (cases "pre = []")
  case True
  then show ?thesis by simp
next
  case False
  with assms have "last (splitOn c pre) = []" by (simp add: last_splitOn_sep)
  then show ?thesis using splitOn_append[of c pre rest] by simp
qed

lemma linesOutcome_skips_line:
  assumes bad: "trim line = [] \<or> startsWith (trim line) ''//'' \<or> jsonParse (trim line) = None"
    and nl: "CHR 0x0A \<notin> set line" and pre: "pre = [] \<or> last pre = CHR 0x0A"
  shows "linesOutcome jsonParse (pre @ line @ CHR 0x0A # post) = linesOutcome jsonParse (pre @ post)"
proof -
  let ?P = "butlast (splitOn CHR 0x0A pre)"
  let ?Q = "splitOn CHR 0x0A post"
  have n: "parsePatch jsonParse line = JNull" using bad by (auto simp: parsePatch_def Let_def)
  then have p: "\<And>s. processLine jsonParse s line = Inr s" by (simp add: processLine_def)
  have a: "splitOn CHR 0x0A (pre @ line @ CHR 0x0A # post) = ?P @ line # ?Q"
    using splitOn_after_prefix[OF pre, of "line @ CHR 0x0A # post"] by (simp add: splitOn_line[OF nl])
  have b: "splitOn CHR 0x0A (pre @ post) = ?P @ ?Q"
    by (rule splitOn_after_prefix[OF pre])
  have ba: "butlast (?P @ line # ?Q) = ?P @ line # butlast ?Q" by (simp add: butlast_append)
  have bb: "butlast (?P @ ?Q) = ?P @ butlast ?Q" by (simp add: butlast_append)
  have "processLines jsonParse initialState (?P @ line # butlast ?Q) =
        processLines jsonParse initialState (?P @ butlast ?Q)"
    by (simp add: processLines_append p split: prod.splits option.splits)
  then show ?thesis
    by (simp add: linesOutcome_def a b ba bb Let_def)
qed

section \<open>Properties of the renderer\<close>







text \<open>
  A key that the read \<open>elements[key]\<close> does not resolve renders as nothing in a
  container, and as the waiting placeholder when it is the root.
\<close>

lemma getElement_absent:
  "own obj k = None \<Longrightarrow> proto obj = ObjectPrototype \<Longrightarrow> k \<notin> set objectPrototypeNames \<Longrightarrow>
   getElement obj k = JUndefined"
  by (auto simp: getElement_def getFromObjectPrototype_def objectPrototypeNames_def)

lemma mapE_unresolved:
  "list_all (\<lambda>k. \<not> truthy (getElement els k)) ks \<Longrightarrow>
   mapE (\<lambda>key. case toStringJS key of
                  Inl e \<Rightarrow> Inl e
                | Inr k \<Rightarrow> (let child = getElement els k in
                            if truthy child then f child else Inr Null)) (map JStr ks) =
     Inr (replicate (length ks) Null)"
  by (induction ks) (auto simp: Let_def)

lemma renderElement_unresolved_children:
  assumes ty: "getField element ''type'' = JStr t" and kind: "t \<in> set containerKinds"
    and cc: "customClassOf (getField element ''props'') = Inr customClass"
    and ch: "getField element ''children'' = JArr (map JStr ks)"
    and un: "list_all (\<lambda>k. \<not> truthy (getElement els k)) ks"
  shows "renderElement renderLeaf (Suc depth) element els =
           Inr ((if t = ''Card'' then renderCard else if t = ''Stack'' then renderStack
                 else if t = ''Grid'' then renderGrid else renderForm)
                  element (getField element ''props'') customClass (replicate (length ks) Null))"
proof -
  have n: "\<not> nullish element" using ty by (auto simp: nullish_def)
  show ?thesis
    using n kind mapE_unresolved[OF un]
    by (auto simp add: ty cc ch Let_def containerKinds_def)
qed

lemma renderPreview_unresolved_root:
  assumes "root t = JStr k" and "k = [] \<or> \<not> truthy (getElement (elements t) k)"
  shows "renderPreview renderLeaf depth Interactive stage (Some t) isLoading actionFired =
           Inr (waitingPlaceholder isLoading)"
  using assms by (auto simp: renderPreview_def Let_def)

text \<open>
  C8. A child or root key without an entry in the element map renders as nothing: not
  when the key names a member of \<open>Object.prototype\<close>. The element map has no entry
  \<open>constructor\<close>, yet the read \<open>elements["constructor"]\<close> finds the inherited
  function; it is truthy, \<open>renderElement\<close> is called on it, and the read of
  \<open>className\<close> on its missing props throws a TypeError, for the child of the card
  and for the root alike.
\<close>

theorem renderPreview_inherited_key_throws:
  "own (elements danglingTree) ''constructor'' = None \<and>
   getElement (elements danglingTree) ''constructor'' = JBuiltin ''Object.prototype.constructor'' \<and>
   renderPreview renderLeaf (Suc (Suc depth)) Interactive None (Some danglingTree) False False =
     Inl TypeError \<and>
   renderPreview renderLeaf (Suc depth) Interactive None
     (Some (danglingTree\<lparr>root := JStr ''constructor''\<rparr>)) False False = Inl TypeError"
  by (simp add: renderPreview_def danglingTree_def getElement_def getFromObjectPrototype_def
      objectPrototypeNames_def Let_def nullish_def customClassOf_def)

end
